theory Spec2Isabelle
  imports Complex_Main
begin

section \<open>Decimal-to-GPA conversion of \<open>score_converter.py\<close>\<close>

text \<open>
  The theory embeds the computational part of the class \<open>GPAConverter\<close>: the class
  attribute \<open>scale\<close> (three breakpoint tables), the static method \<open>_gpa\<close> and the
  two averages \<open>get_iaa\<close> and \<open>get_gpa\<close>. Logging in and scraping the transcript
  talk to a web site and are not modelled; the averages are modelled on the data frame
  they finally compute on.

  Numbers. A number of a table or of a transcript is written as the decimal number it
  prints as, a rational: \<open>9.7\<close> is 97/10 and stands for the double nearest to it. The
  lookup \<open>_gpa\<close> only compares numbers and takes a maximum. Rounding to the nearest
  double is monotone and keeps decimal numbers of at most 15 significant digits apart,
  so the comparisons of the model and of the code agree on the literals of the tables
  and on every grade written with at most 15 significant digits (the grades of a
  transcript have one decimal). The averages multiply, add and divide: there the model
  computes on doubles, every result rounded as IEEE 754 binary64 rounds it. Grades and
  credits that are not a number, infinite or a negative zero have no decimal and are
  outside the model; such values are modelled where the arithmetic produces them.
\<close>

subsection \<open>Errors\<close>

text \<open>
  The exceptions the modelled code can raise. All of them are built-in exceptions of
  Python: the only exception class the module defines is \<open>LoginError\<close>, raised by the
  log-in code alone.
  \<^item> \<open>KeyError\<close>: \<open>GPAConverter.scale[scale_id]\<close> on an identifier that is not a key;
  \<^item> \<open>ValueError\<close>: the built-in \<open>max\<close> on an empty selection;
  \<^item> \<open>ZeroDivisionError\<close>: \<open>/\<close> with a divisor that is zero;
  \<^item> \<open>AttributeError\<close>: \<open>transcript.credits\<close> on a data frame that has no such column.
\<close>

datatype py_error = KeyError | ValueError | ZeroDivisionError | AttributeError

subsection \<open>The scale tables\<close>

text \<open>One row of a table: the dictionary \<open>{'decimal': d, 'grade': v}\<close>.\<close>

record scale_entry =
  decimal :: rat
  grade :: rat

text \<open>The class attribute \<open>scale\<close>, a dictionary from the identifiers 1, 2, 3 to the tables.\<close>

definition scale :: "int \<rightharpoonup> scale_entry list" where
  "scale = [
    1 \<mapsto> [
      \<lparr>decimal = 9, grade = 4.0\<rparr>,
      \<lparr>decimal = 7, grade = 3.0\<rparr>,
      \<lparr>decimal = 5, grade = 2\<rparr>,
      \<lparr>decimal = 3, grade = 1\<rparr>,
      \<lparr>decimal = 0, grade = 0\<rparr>
    ],
    2 \<mapsto> [
      \<lparr>decimal = 9.7, grade = 4.0\<rparr>,
      \<lparr>decimal = 9.6, grade = 3.9\<rparr>,
      \<lparr>decimal = 9.5, grade = 3.8\<rparr>,
      \<lparr>decimal = 9.3, grade = 3.7\<rparr>,
      \<lparr>decimal = 9.1, grade = 3.6\<rparr>,
      \<lparr>decimal = 9.0, grade = 3.5\<rparr>,
      \<lparr>decimal = 8.8, grade = 3.4\<rparr>,
      \<lparr>decimal = 8.7, grade = 3.3\<rparr>,
      \<lparr>decimal = 8.5, grade = 3.2\<rparr>,
      \<lparr>decimal = 8.4, grade = 3.1\<rparr>,
      \<lparr>decimal = 8.2, grade = 3.0\<rparr>,
      \<lparr>decimal = 8.0, grade = 2.9\<rparr>,
      \<lparr>decimal = 7.9, grade = 2.8\<rparr>,
      \<lparr>decimal = 7.8, grade = 2.7\<rparr>,
      \<lparr>decimal = 7.7, grade = 2.6\<rparr>,
      \<lparr>decimal = 7.6, grade = 2.5\<rparr>,
      \<lparr>decimal = 7.5, grade = 2.4\<rparr>,
      \<lparr>decimal = 7.4, grade = 2.3\<rparr>,
      \<lparr>decimal = 7.3, grade = 2.2\<rparr>,
      \<lparr>decimal = 7.2, grade = 2.1\<rparr>,
      \<lparr>decimal = 7.1, grade = 2.0\<rparr>,
      \<lparr>decimal = 7.0, grade = 1.9\<rparr>,
      \<lparr>decimal = 6.9, grade = 1.8\<rparr>,
      \<lparr>decimal = 6.8, grade = 1.7\<rparr>,
      \<lparr>decimal = 6.7, grade = 1.6\<rparr>,
      \<lparr>decimal = 6.6, grade = 1.5\<rparr>,
      \<lparr>decimal = 6.5, grade = 1.4\<rparr>,
      \<lparr>decimal = 6.4, grade = 1.3\<rparr>,
      \<lparr>decimal = 6.2, grade = 1.2\<rparr>,
      \<lparr>decimal = 6.1, grade = 1.1\<rparr>,
      \<lparr>decimal = 6.0, grade = 1.0\<rparr>,
      \<lparr>decimal = 0, grade = 0\<rparr>
    ],
    3 \<mapsto> [
      \<lparr>decimal = 9.3, grade = 4.0\<rparr>,
      \<lparr>decimal = 9.0, grade = 3.7\<rparr>,
      \<lparr>decimal = 8.7, grade = 3.3\<rparr>,
      \<lparr>decimal = 8.3, grade = 3.0\<rparr>,
      \<lparr>decimal = 8.0, grade = 2.7\<rparr>,
      \<lparr>decimal = 7.7, grade = 2.3\<rparr>,
      \<lparr>decimal = 7.3, grade = 2.0\<rparr>,
      \<lparr>decimal = 7.0, grade = 1.7\<rparr>,
      \<lparr>decimal = 6.7, grade = 1.3\<rparr>,
      \<lparr>decimal = 6.5, grade = 1.0\<rparr>,
      \<lparr>decimal = 0, grade = 0.0\<rparr>
    ]
  ]"

text \<open>
  \<open>GPAConverter.scale[scale_id]\<close>, the first statement of \<open>get_gpa\<close> and of
  \<open>export_translated_transcript\<close>: subscripting the dictionary raises \<open>KeyError\<close> on
  a missing key.
\<close>

definition scale_getitem :: "int \<Rightarrow> py_error + scale_entry list" where
  "scale_getitem scale_id =
     (case scale scale_id of None \<Rightarrow> Inl KeyError | Some conversion \<Rightarrow> Inr conversion)"

subsection \<open>The converter \<open>_gpa\<close>\<close>

text \<open>
  \<open>conversion.loc[conversion.decimal <= grade, 'grade']\<close>: the \<open>grade\<close> column of the
  rows whose \<open>decimal\<close> is at most the grade, in the order of the table.
\<close>

definition loc_le :: "scale_entry list \<Rightarrow> rat \<Rightarrow> rat list" where
  "loc_le conversion g = map grade (filter (\<lambda>e. decimal e \<le> g) conversion)"

text \<open>Python's built-in \<open>max\<close> of an iterable: \<open>ValueError\<close> when it is empty.\<close>

fun py_max :: "rat list \<Rightarrow> py_error + rat" where
  "py_max [] = Inl ValueError"
| "py_max (x # xs) = Inr (foldl max x xs)"

text \<open>
  The static method
  \<^verbatim>\<open>def _gpa(grade, conversion):
      return max(conversion.loc[conversion.decimal <= grade, 'grade'])\<close>
  (an Isabelle name cannot start with an underscore).
\<close>

definition gpa :: "rat \<Rightarrow> scale_entry list \<Rightarrow> py_error + rat" where
  "gpa g conversion = py_max (loc_le conversion g)"

subsection \<open>Doubles\<close>

text \<open>
  A Python \<open>float\<close> and an element of a \<open>float64\<close> column: \<open>Finite q\<close> is the double
  of value \<open>q\<close> (\<open>Finite 0\<close> is \<open>+0.0\<close>), \<open>NegZero\<close> is \<open>-0.0\<close>, then the two infinities and
  not-a-number.
\<close>

datatype float64 = Finite rat | NegZero | PosInf | NegInf | NaN

text \<open>The number of binary digits of a natural number.\<close>

fun bit_length :: "nat \<Rightarrow> nat" where
  "bit_length n = (if n = 0 then 0 else Suc (bit_length (n div 2)))"

definition pow2 :: "int \<Rightarrow> rat" where
  "pow2 k = (if 0 \<le> k then 2 ^ nat k else 1 / 2 ^ nat (- k))"

text \<open>The binary exponent of a positive number: \<open>pow2 (ilog2 x) \<le> x < pow2 (ilog2 x + 1)\<close>.\<close>

definition ilog2 :: "rat \<Rightarrow> int" where
  "ilog2 x =
     (if 1 \<le> x then int (bit_length (nat \<lfloor>x\<rfloor>)) - 1
      else let k = int (bit_length (nat \<lfloor>1 / x\<rfloor>)) - 1
           in if x * pow2 k = 1 then - k else - k - 1)"

text \<open>The nearest integer, a tie going to the even one.\<close>

definition round_half_even :: "rat \<Rightarrow> int" where
  "round_half_even x =
     (let f = \<lfloor>x\<rfloor>; d = x - of_int f
      in if d < 1 / 2 then f else if 1 / 2 < d then f + 1 else if even f then f else f + 1)"

text \<open>
  A positive number rounded to 53 significant binary digits, or to a multiple of
  \<open>2\<^sup>-\<^sup>1\<^sup>0\<^sup>7\<^sup>4\<close> in the subnormal range.
\<close>

definition round_pos :: "rat \<Rightarrow> rat" where
  "round_pos x =
     (let p = max (ilog2 x - 52) (- 1074)
      in of_int (round_half_even (x / pow2 p)) * pow2 p)"

text \<open>
  The rounding of IEEE 754 binary64, to nearest with ties to even: a result of
  magnitude \<open>2\<^sup>1\<^sup>0\<^sup>2\<^sup>4\<close> or more is an infinity, a result that rounds to nothing is a zero
  of the sign of the number.
\<close>

definition round64 :: "rat \<Rightarrow> float64" where
  "round64 x =
     (if x = 0 then Finite 0
      else let r = round_pos \<bar>x\<bar>
           in if pow2 1024 \<le> r then (if x < 0 then NegInf else PosInf)
              else if r = 0 then (if x < 0 then NegZero else Finite 0)
              else Finite (if x < 0 then - r else r))"

text \<open>\<open>x == 0\<close>, the sign bit, and the value of a finite double.\<close>

fun is_zero :: "float64 \<Rightarrow> bool" where
  "is_zero (Finite q) = (q = 0)"
| "is_zero NegZero = True"
| "is_zero _ = False"

fun negative :: "float64 \<Rightarrow> bool" where
  "negative (Finite q) = (q < 0)"
| "negative NegZero = True"
| "negative NegInf = True"
| "negative _ = False"

fun finite_value :: "float64 \<Rightarrow> rat option" where
  "finite_value (Finite q) = Some q"
| "finite_value NegZero = Some 0"
| "finite_value _ = None"

definition signed_zero :: "bool \<Rightarrow> float64" where
  "signed_zero neg = (if neg then NegZero else Finite 0)"

definition signed_inf :: "bool \<Rightarrow> float64" where
  "signed_inf neg = (if neg then NegInf else PosInf)"

text \<open>
  Sum, product and quotient of two doubles: the exact result rounded, and the rules of
  IEEE 754 for zeros, infinities and not-a-number. None of them raises.
\<close>

definition fl_add :: "float64 \<Rightarrow> float64 \<Rightarrow> float64" where
  "fl_add x y =
     (if x = NaN \<or> y = NaN then NaN
      else case (finite_value x, finite_value y) of
        (Some a, Some b) \<Rightarrow>
          if a + b = 0 then signed_zero (negative x \<and> negative y) else round64 (a + b)
      | (Some a, None) \<Rightarrow> y
      | (None, Some b) \<Rightarrow> x
      | (None, None) \<Rightarrow> if x = y then x else NaN)"

definition fl_mul :: "float64 \<Rightarrow> float64 \<Rightarrow> float64" where
  "fl_mul x y =
     (if x = NaN \<or> y = NaN then NaN
      else case (finite_value x, finite_value y) of
        (Some a, Some b) \<Rightarrow>
          if a * b = 0 then signed_zero (negative x \<noteq> negative y) else round64 (a * b)
      | (Some a, None) \<Rightarrow> if a = 0 then NaN else signed_inf (negative x \<noteq> negative y)
      | (None, Some b) \<Rightarrow> if b = 0 then NaN else signed_inf (negative x \<noteq> negative y)
      | (None, None) \<Rightarrow> signed_inf (negative x \<noteq> negative y))"

definition fl_div :: "float64 \<Rightarrow> float64 \<Rightarrow> float64" where
  "fl_div x y =
     (if x = NaN \<or> y = NaN then NaN
      else case (finite_value x, finite_value y) of
        (Some a, Some b) \<Rightarrow>
          if b = 0 then (if a = 0 then NaN else signed_inf (negative x \<noteq> negative y))
          else if a = 0 then signed_zero (negative x \<noteq> negative y)
          else round64 (a / b)
      | (Some a, None) \<Rightarrow> signed_zero (negative x \<noteq> negative y)
      | (None, Some b) \<Rightarrow> signed_inf (negative x \<noteq> negative y)
      | (None, None) \<Rightarrow> NaN)"

text \<open>The double a decimal number stands for: \<open>float('9.6')\<close>, and the literal \<open>9.6\<close>.\<close>

definition py_float :: "rat \<Rightarrow> float64" where
  "py_float q = round64 q"

subsection \<open>The averages\<close>

text \<open>
  A row of the transcript, as \<open>get_grade_records\<close> appends it: \<open>credits\<close> is
  \<open>int(...) / 18\<close> and \<open>grade\<close> is \<open>float(...)\<close>, two Python floats, so both columns of the
  frame are \<open>float64\<close> columns. \<open>get_iaa\<close> and \<open>get_gpa\<close> read these two columns only
  (\<open>code\<close> and \<open>subject\<close> are used by the export alone). A row gives the decimal number
  of each; the column \<open>grade\<close> of the transcript is named \<open>grade_row\<close> here, \<open>grade\<close>
  being the column of the scale tables.
\<close>

record subject_row =
  credits :: rat
  grade_row :: rat

text \<open>
  A transcript is a data frame. \<open>pd.DataFrame(subjects)\<close>, the last statement of
  \<open>get_grade_records\<close>, makes a frame with the columns of the rows, and a frame with no
  column at all from the empty list. A frame with the columns and no row is what a
  caller can pass as \<open>transcript\<close>.
\<close>

datatype frame = NoColumns | Columns "subject_row list"

definition DataFrame :: "subject_row list \<Rightarrow> frame" where
  "DataFrame subjects = (if subjects = [] then NoColumns else Columns subjects)"

text \<open>
  Python's built-in \<open>sum\<close>. Iterating a \<open>float64\<close> column hands Python floats to it, and
  it adds them from the left, starting from 0, every partial sum rounded. (This is
  \<open>sum\<close> up to Python 3.11; from 3.12 on \<open>sum\<close> carries a correction term over floats and
  its last digit can differ.)
\<close>

definition py_sum :: "float64 list \<Rightarrow> float64" where
  "py_sum xs = foldl fl_add (Finite 0) xs"

text \<open>Python's \<open>/\<close> on two numbers: it raises on a divisor that is zero, of either sign.\<close>

definition py_truediv :: "float64 \<Rightarrow> float64 \<Rightarrow> py_error + float64" where
  "py_truediv a b = (if is_zero b then Inl ZeroDivisionError else Inr (fl_div a b))"

text \<open>
  \<open>series.apply(self._gpa, args=(conversion,))\<close>: the converter on every element in
  order; the first exception ends the call.
\<close>

fun apply_gpa :: "rat list \<Rightarrow> scale_entry list \<Rightarrow> py_error + rat list" where
  "apply_gpa [] conversion = Inr []"
| "apply_gpa (g # gs) conversion =
     (case gpa g conversion of
        Inl e \<Rightarrow> Inl e
      | Inr v \<Rightarrow> (case apply_gpa gs conversion of Inl e \<Rightarrow> Inl e | Inr vs \<Rightarrow> Inr (v # vs)))"

text \<open>
  \<open>get_iaa\<close>, on the transcript it computes on:
  \<^verbatim>\<open>sum(transcript.credits * transcript.grade) / sum(transcript.credits)\<close>
  Reading \<open>transcript.credits\<close> comes first and raises on the frame without columns;
  the product of the two columns is taken element by element. The method prints the
  number with \<open>'IAA: %.2f'\<close> and returns nothing; the model returns the number that is
  handed to the format. Called without a transcript, the method takes the one that
  \<open>get_grade_records\<close> stored in the instance; the model takes the transcript as its
  argument.
\<close>

definition get_iaa :: "frame \<Rightarrow> py_error + float64" where
  "get_iaa transcript =
     (case transcript of
        NoColumns \<Rightarrow> Inl AttributeError
      | Columns rows \<Rightarrow>
          py_truediv
            (py_sum (map2 fl_mul (map (\<lambda>r. py_float (credits r)) rows)
                                 (map (\<lambda>r. py_float (grade_row r)) rows)))
            (py_sum (map (\<lambda>r. py_float (credits r)) rows)))"

text \<open>
  \<open>get_gpa\<close>: the table is fetched first, then
  \<^verbatim>\<open>sum(transcript.credits * transcript.loc[:, 'grade'].apply(self._gpa, args=(conversion,)))
     / sum(transcript.credits)\<close>
  is printed with \<open>'GPA: %.2f'\<close>; again the model returns the number handed to the format.
  The values \<open>_gpa\<close> returns are numbers of the table, Python floats.
\<close>

definition get_gpa :: "int \<Rightarrow> frame \<Rightarrow> py_error + float64" where
  "get_gpa scale_id transcript =
     (case scale_getitem scale_id of
        Inl e \<Rightarrow> Inl e
      | Inr conversion \<Rightarrow>
          (case transcript of
             NoColumns \<Rightarrow> Inl AttributeError
           | Columns rows \<Rightarrow>
               (case apply_gpa (map grade_row rows) conversion of
                  Inl e \<Rightarrow> Inl e
                | Inr gpas \<Rightarrow>
                    py_truediv
                      (py_sum (map2 fl_mul (map (\<lambda>r. py_float (credits r)) rows)
                                           (map py_float gpas)))
                      (py_sum (map (\<lambda>r. py_float (credits r)) rows)))))"

subsection \<open>The order of a table\<close>

text \<open>
  A property of a table, used in the proofs: each row has a strictly smaller
  \<open>decimal\<close>, and a \<open>grade\<close> that is not greater, than every row listed before it.
\<close>

definition desc_table :: "scale_entry list \<Rightarrow> bool" where
  "desc_table conversion =
     sorted_wrt (\<lambda>a b. decimal b < decimal a \<and> grade b \<le> grade a) conversion"

section \<open>Facts about the three tables\<close>

lemma registered_ids:
  assumes "scale scale_id = Some conversion"
  shows "scale_id \<in> {1, 2, 3}"
  using assms by (auto simp: scale_def split: if_splits)

lemma registered_desc:
  assumes "scale scale_id = Some conversion"
  shows "desc_table conversion"
  using assms by (auto simp: scale_def desc_table_def split: if_splits)

lemma registered_ends:
  assumes "scale scale_id = Some conversion"
  shows "conversion \<noteq> [] \<and> decimal (last conversion) = 0 \<and> grade (last conversion) = 0 \<and>
         grade (hd conversion) = 4"
  using assms by (auto simp: scale_def split: if_splits)

lemma registered_zero_entry:
  assumes "scale scale_id = Some conversion"
  shows "last conversion \<in> set conversion \<and> decimal (last conversion) = 0"
  using registered_ends [OF assms] by simp

lemma registered_le_10:
  assumes "scale scale_id = Some conversion"
  shows "\<forall>e\<in>set conversion. decimal e \<le> 10"
  using assms by (auto simp: scale_def split: if_splits)

lemma registered_nonneg:
  assumes "scale scale_id = Some conversion"
  shows "\<forall>e\<in>set conversion. 0 \<le> decimal e"
  using assms by (auto simp: scale_def split: if_splits)

lemma registered_decreasing:
  assumes "scale scale_id = Some conversion"
  shows "sorted_wrt (>) (map decimal conversion)"
proof -
  have "sorted_wrt (\<lambda>a b. decimal b < decimal a) conversion"
    using registered_desc [OF assms] unfolding desc_table_def
    by (rule sorted_wrt_mono_rel [rotated]) simp
  then show ?thesis by (simp add: sorted_wrt_map)
qed

lemma desc_table_mono:
  assumes "desc_table conversion" "a \<in> set conversion" "b \<in> set conversion"
    "decimal a \<le> decimal b"
  shows "grade a \<le> grade b"
  using assms unfolding desc_table_def
  by (induction conversion) auto

lemma desc_table_inj:
  assumes "desc_table conversion" "a \<in> set conversion" "b \<in> set conversion"
    "decimal a = decimal b"
  shows "a = b"
  using assms unfolding desc_table_def
  by (induction conversion) auto

lemma desc_table_hd:
  assumes "desc_table conversion" "a \<in> set conversion"
  shows "decimal a \<le> decimal (hd conversion) \<and> grade a \<le> grade (hd conversion)"
  using assms unfolding desc_table_def
  by (cases conversion) auto

section \<open>The converter as a maximum over the qualifying rows\<close>

lemma foldl_max_Max: "foldl max x xs = Max (set (x # xs))"
proof (induction xs arbitrary: x)
  case Nil
  show ?case by simp
next
  case (Cons y ys)
  have "foldl max x (y # ys) = Max (set (max x y # ys))"
    using Cons.IH [of "max x y"] by simp
  also have "\<dots> = Max (set (x # y # ys))"
    by (cases "ys = []") (simp_all add: max.assoc)
  finally show ?case .
qed

lemma py_max_Max: "xs \<noteq> [] \<Longrightarrow> py_max xs = Inr (Max (set xs))"
  by (cases xs) (simp_all add: foldl_max_Max del: set_simps)

lemma set_loc_le: "set (loc_le conversion g) = grade ` {e \<in> set conversion. decimal e \<le> g}"
  by (simp add: loc_le_def)

lemma gpa_ValueError:
  "(gpa g conversion = Inl ValueError) = (\<forall>e\<in>set conversion. \<not> decimal e \<le> g)"
proof (cases "loc_le conversion g = []")
  case True
  then show ?thesis
    by (simp add: gpa_def) (simp add: loc_le_def filter_empty_conv)
next
  case False
  then show ?thesis
    by (simp add: gpa_def py_max_Max) (simp add: loc_le_def filter_empty_conv)
qed

lemma gpa_Max:
  assumes "e \<in> set conversion" "decimal e \<le> g"
  shows "gpa g conversion = Inr (Max (grade ` {e \<in> set conversion. decimal e \<le> g}))"
proof -
  have "loc_le conversion g \<noteq> []"
    using assms by (auto simp: loc_le_def filter_empty_conv)
  then show ?thesis
    by (simp add: gpa_def py_max_Max set_loc_le)
qed

lemma gpa_at_best:
  assumes d: "desc_table conversion" and e: "e \<in> set conversion" "decimal e \<le> g"
    and best: "\<forall>e'\<in>set conversion. decimal e' \<le> g \<longrightarrow> decimal e' \<le> decimal e"
  shows "gpa g conversion = Inr (grade e)"
proof -
  let ?S = "{e \<in> set conversion. decimal e \<le> g}"
  have "Max (grade ` ?S) = grade e"
  proof (rule Max_eqI)
    show "finite (grade ` ?S)" by simp
    show "grade e \<in> grade ` ?S" using e by blast
    fix v assume "v \<in> grade ` ?S"
    then obtain e' where e': "e' \<in> set conversion" "decimal e' \<le> g" "v = grade e'"
      by blast
    with best have "decimal e' \<le> decimal e" by blast
    with d e' e(1) show "v \<le> grade e" by (simp add: desc_table_mono)
  qed
  with gpa_Max [OF e] show ?thesis by simp
qed

lemma best_exists:
  assumes e: "e0 \<in> set conversion" "decimal e0 \<le> g"
  shows "\<exists>e\<in>set conversion. decimal e \<le> g \<and>
           (\<forall>e'\<in>set conversion. decimal e' \<le> g \<longrightarrow> decimal e' \<le> decimal e)"
proof -
  let ?S = "{e \<in> set conversion. decimal e \<le> g}"
  have fin: "finite (decimal ` ?S)" and ne: "decimal ` ?S \<noteq> {}"
    using e by auto
  from Max_in [OF fin ne] obtain e where e': "e \<in> ?S" "decimal e = Max (decimal ` ?S)"
    by auto
  have "\<forall>e'\<in>?S. decimal e' \<le> decimal e"
    using fin e'(2) by simp
  with e'(1) show ?thesis by blast
qed

lemma registered_gpa_total:
  assumes "scale scale_id = Some conversion" and "0 \<le> g"
  shows "\<exists>v. gpa g conversion = Inr v"
proof -
  from registered_zero_entry [OF assms(1)] assms(2)
  have "last conversion \<in> set conversion" "decimal (last conversion) \<le> g" by simp_all
  from gpa_Max [OF this] show ?thesis by blast
qed

lemma gpa_above_all:
  assumes "scale scale_id = Some conversion" and "\<forall>e\<in>set conversion. decimal e \<le> g"
  shows "gpa g conversion = Inr 4"
proof -
  note d = registered_desc [OF assms(1)] and e = registered_ends [OF assms(1)]
  from e have h: "hd conversion \<in> set conversion" by simp
  have "\<forall>e'\<in>set conversion. decimal e' \<le> g \<longrightarrow> decimal e' \<le> decimal (hd conversion)"
    using desc_table_hd [OF d] by blast
  from gpa_at_best [OF d h _ this] assms(2) h e show ?thesis by simp
qed


section \<open>The converter\<close>

text \<open>
  Claim C1. For every registered scale and every grade \<open>g \<ge> 0\<close>, \<open>_gpa\<close> returns the
  \<open>grade\<close> of the row with the greatest \<open>decimal\<close> that is at most \<open>g\<close>: a step
  function over the breakpoints. The result is always a value of the table, never a
  value between two rows.
\<close>

theorem gpa_is_floor_lookup:
  assumes "scale scale_id = Some conversion" and "0 \<le> g"
  shows "\<exists>e\<in>set conversion. decimal e \<le> g \<and>
           (\<forall>e'\<in>set conversion. decimal e' \<le> g \<longrightarrow> decimal e' \<le> decimal e) \<and>
           gpa g conversion = Inr (grade e)"
proof -
  from registered_zero_entry [OF assms(1)] assms(2)
  have "last conversion \<in> set conversion" "decimal (last conversion) \<le> g" by simp_all
  from best_exists [OF this] obtain e where e: "e \<in> set conversion" "decimal e \<le> g"
    "\<forall>e'\<in>set conversion. decimal e' \<le> g \<longrightarrow> decimal e' \<le> decimal e" by blast
  from gpa_at_best [OF registered_desc [OF assms(1)] e] e show ?thesis by blast
qed

text \<open>The theorem at scale 2 and the grade 8.45, which lies between two breakpoints.\<close>

theorem gpa_is_floor_lookup_witness:
  "scale 2 = Some (the (scale 2)) \<and> (0::rat) \<le> 8.45 \<and>
   (\<exists>e\<in>set (the (scale 2)). decimal e \<le> 8.45 \<and>
      (\<forall>e'\<in>set (the (scale 2)). decimal e' \<le> 8.45 \<longrightarrow> decimal e' \<le> decimal e) \<and>
      gpa 8.45 (the (scale 2)) = Inr (grade e))"
proof -
  have s: "scale 2 = Some (the (scale 2))" by (simp add: scale_def)
  have g: "(0::rat) \<le> 8.45" by simp
  from gpa_is_floor_lookup [OF s g] s g show ?thesis by blast
qed


text \<open>
  Claim C2. For every registered scale the converter is monotonic non-decreasing on the
  grades \<open>g \<ge> 0\<close>: for \<open>0 \<le> g1 \<le> g2\<close> both conversions return a value, and the value
  for \<open>g1\<close> is at most the value for \<open>g2\<close>.
\<close>

theorem gpa_monotone:
  assumes "scale scale_id = Some conversion" and "0 \<le> g1" and "g1 \<le> g2"
  shows "\<exists>v1 v2. gpa g1 conversion = Inr v1 \<and> gpa g2 conversion = Inr v2 \<and> v1 \<le> v2"
proof -
  let ?z = "last conversion"
  let ?S = "\<lambda>g. grade ` {e \<in> set conversion. decimal e \<le> g}"
  from registered_zero_entry [OF assms(1)] assms(2,3)
  have z: "?z \<in> set conversion" "decimal ?z \<le> g1" "decimal ?z \<le> g2" by simp_all
  have "?S g1 \<subseteq> ?S g2" using assms(3) by auto
  moreover have "?S g1 \<noteq> {}" using z by blast
  ultimately have "Max (?S g1) \<le> Max (?S g2)" by (intro Max_mono) simp_all
  with gpa_Max [OF z(1,2)] gpa_Max [OF z(1,3)] show ?thesis by simp
qed

text \<open>The theorem at scale 3 and the grades 6.6 and 9.1.\<close>

theorem gpa_monotone_witness:
  "scale 3 = Some (the (scale 3)) \<and> (0::rat) \<le> 6.6 \<and> (6.6::rat) \<le> 9.1 \<and>
   (\<exists>v1 v2. gpa 6.6 (the (scale 3)) = Inr v1 \<and> gpa 9.1 (the (scale 3)) = Inr v2 \<and> v1 \<le> v2)"
proof -
  have s: "scale 3 = Some (the (scale 3))" by (simp add: scale_def)
  have g1: "(0::rat) \<le> 6.6" and g2: "(6.6::rat) \<le> 9.1" by simp_all
  from gpa_monotone [OF s g1 g2] s g1 g2 show ?thesis by blast
qed

text \<open>
  Claim C3, as amended. Under scale 1 the grade 9 converts to 4.0 and the grade 8.9
  converts to 3.0: it falls to the row with \<open>decimal\<close> 7, the greatest breakpoint of
  that table that is at most 8.9.
\<close>

theorem scale_1_step:
  "\<exists>conversion. scale_getitem 1 = Inr conversion \<and>
     gpa 9 conversion = Inr 4.0 \<and> gpa 8.9 conversion = Inr 3.0"
  by (simp add: scale_getitem_def scale_def gpa_def loc_le_def)

text \<open>
  The claim as it was stated has 8.9 convert to 2, the value of the row with
  \<open>decimal\<close> 5. The code does not return 2 there.
\<close>

theorem scale_1_step_counterexample:
  "\<not> (gpa 9 (the (scale 1)) = Inr 4.0 \<and> gpa 8.9 (the (scale 1)) = Inr 2)"
  by (simp add: scale_def gpa_def loc_le_def)

text \<open>
  Claim C4, as amended. For every registered scale, a negative grade makes \<open>_gpa\<close> raise
  \<open>ValueError\<close> (the selection handed to \<open>max\<close> is empty; the grade is not clamped to
  0), and a grade above 10 raises nothing: the result is 4.0, the value for the grade 10.
\<close>

theorem gpa_outside_domain:
  assumes "scale scale_id = Some conversion"
  shows "(g < 0 \<longrightarrow> gpa g conversion = Inl ValueError) \<and>
         (10 < g \<longrightarrow> gpa g conversion = Inr 4.0 \<and> gpa g conversion = gpa 10 conversion)"
proof -
  have neg: "gpa g conversion = Inl ValueError" if "g < 0"
  proof -
    from that registered_nonneg [OF assms] have "\<forall>e\<in>set conversion. \<not> decimal e \<le> g"
      by fastforce
    then show ?thesis by (simp add: gpa_ValueError)
  qed
  have top: "gpa h conversion = Inr 4.0" if "10 \<le> h" for h
  proof -
    from that registered_le_10 [OF assms] have "\<forall>e\<in>set conversion. decimal e \<le> h"
      by fastforce
    from gpa_above_all [OF assms this] show ?thesis by simp
  qed
  from neg top [of g] top [of 10] show ?thesis by simp
qed

text \<open>The theorem at scale 1, for the grades \<open>-1\<close> and 15.\<close>

theorem gpa_outside_domain_witness:
  "scale 1 = Some (the (scale 1)) \<and> (-1::rat) < 0 \<and> (10::rat) < 15 \<and>
   gpa (-1) (the (scale 1)) = Inl ValueError \<and>
   gpa 15 (the (scale 1)) = Inr 4.0 \<and> gpa 15 (the (scale 1)) = gpa 10 (the (scale 1))"
proof -
  have s: "scale 1 = Some (the (scale 1))" by (simp add: scale_def)
  from gpa_outside_domain [OF s, of "-1"] gpa_outside_domain [OF s, of 15] s
  show ?thesis by auto
qed

text \<open>
  The claim as it was stated has every grade outside the domain raise an error. The
  grade 15 under scale 1 raises none: the call returns 4.0.
\<close>

theorem gpa_above_domain_counterexample:
  "gpa 15 (the (scale 1)) = Inr 4.0"
  by (simp add: scale_def gpa_def loc_le_def)

text \<open>
  Claim C5. For every registered scale and every row of its table, converting the
  row's \<open>decimal\<close> returns the row's \<open>grade\<close> exactly (the lower bound of a step is
  inclusive); in particular converting 0 returns 0 under each of the three scales.
\<close>

theorem gpa_at_breakpoint:
  assumes "scale scale_id = Some conversion"
  shows "(\<forall>e\<in>set conversion. gpa (decimal e) conversion = Inr (grade e)) \<and>
         gpa 0 conversion = Inr 0"
proof -
  note d = registered_desc [OF assms]
  have bp: "gpa (decimal e) conversion = Inr (grade e)" if "e \<in> set conversion" for e
    using gpa_at_best [OF d that] by simp
  from registered_ends [OF assms] bp [of "last conversion"] have "gpa 0 conversion = Inr 0"
    by simp
  with bp show ?thesis by blast
qed

text \<open>The theorem at scale 3 and its row \<open>{'decimal': 8.3, 'grade': 3.0}\<close>.\<close>

theorem gpa_at_breakpoint_witness:
  "scale 3 = Some (the (scale 3)) \<and>
   \<lparr>decimal = 8.3, grade = 3.0\<rparr> \<in> set (the (scale 3)) \<and>
   gpa 8.3 (the (scale 3)) = Inr 3.0 \<and>
   gpa 0 (the (scale 3)) = Inr 0"
proof -
  have s: "scale 3 = Some (the (scale 3))" by (simp add: scale_def)
  have e: "\<lparr>decimal = 8.3, grade = 3.0\<rparr> \<in> set (the (scale 3))" by (simp add: scale_def)
  from gpa_at_breakpoint [OF s] e
  have "gpa (decimal \<lparr>decimal = 8.3, grade = 3.0\<rparr>) (the (scale 3)) =
          Inr (grade \<lparr>decimal = 8.3, grade = 3.0\<rparr>)"
    and "gpa 0 (the (scale 3)) = Inr 0" by blast+
  with s e show ?thesis by simp
qed

text \<open>
  Claim C10. For every registered scale and every grade strictly greater than the
  greatest \<open>decimal\<close> of its table, \<open>_gpa\<close> raises nothing and returns 4.0, which is the
  greatest \<open>grade\<close> of the table: the grade is not checked against an upper bound.
\<close>

theorem gpa_above_top:
  assumes "scale scale_id = Some conversion" and "Max (decimal ` set conversion) < g"
  shows "gpa g conversion = Inr 4.0 \<and> Max (grade ` set conversion) = 4.0"
proof -
  note d = registered_desc [OF assms(1)] and e = registered_ends [OF assms(1)]
  have "\<forall>e\<in>set conversion. decimal e \<le> g"
  proof
    fix e assume "e \<in> set conversion"
    then have "decimal e \<le> Max (decimal ` set conversion)" by simp
    with assms(2) show "decimal e \<le> g" by simp
  qed
  from gpa_above_all [OF assms(1) this] have "gpa g conversion = Inr 4.0" by simp
  moreover have "Max (grade ` set conversion) = grade (hd conversion)"
  proof (rule Max_eqI)
    show "finite (grade ` set conversion)" by simp
    from e have "hd conversion \<in> set conversion" by simp
    then show "grade (hd conversion) \<in> grade ` set conversion" by (rule imageI)
    fix v assume "v \<in> grade ` set conversion"
    then show "v \<le> grade (hd conversion)" using desc_table_hd [OF d] by blast
  qed
  ultimately show ?thesis using e by simp
qed

text \<open>The theorem at scale 2 and the grade 15.\<close>

theorem gpa_above_top_witness:
  "scale 2 = Some (the (scale 2)) \<and> Max (decimal ` set (the (scale 2))) < 15 \<and>
   gpa 15 (the (scale 2)) = Inr 4.0 \<and> Max (grade ` set (the (scale 2))) = 4.0"
proof -
  have s: "scale 2 = Some (the (scale 2))" by (simp add: scale_def)
  have g: "Max (decimal ` set (the (scale 2))) < 15" by (simp add: scale_def)
  from gpa_above_top [OF s g] s g show ?thesis by blast
qed


section \<open>The scale tables\<close>

text \<open>
  Claim C9. The registered identifiers are 1, 2 and 3, and every registered table
  satisfies the scale invariant: its \<open>decimal\<close> column is strictly decreasing in the
  listed order, 0 is one of its thresholds and no threshold is below 0; so for every
  grade \<open>g \<ge> 0\<close> exactly one row is the best one, the row with the greatest threshold
  that is at most \<open>g\<close>.
\<close>

theorem registered_scale_invariant:
  assumes "scale scale_id = Some conversion"
  shows "scale_id \<in> {1, 2, 3} \<and>
         sorted_wrt (>) (map decimal conversion) \<and>
         0 \<in> set (map decimal conversion) \<and> (\<forall>e\<in>set conversion. 0 \<le> decimal e) \<and>
         (\<forall>g\<ge>0. \<exists>!e. e \<in> set conversion \<and> decimal e \<le> g \<and>
            (\<forall>e'\<in>set conversion. decimal e' \<le> g \<longrightarrow> decimal e' \<le> decimal e))"
proof -
  note d = registered_desc [OF assms] and z = registered_zero_entry [OF assms]
  have zero: "0 \<in> set (map decimal conversion)"
    using z by force
  have uniq: "\<exists>!e. e \<in> set conversion \<and> decimal e \<le> g \<and>
            (\<forall>e'\<in>set conversion. decimal e' \<le> g \<longrightarrow> decimal e' \<le> decimal e)"
    if "0 \<le> g" for g
  proof -
    from z that have "last conversion \<in> set conversion" "decimal (last conversion) \<le> g"
      by simp_all
    from best_exists [OF this] obtain e where e: "e \<in> set conversion" "decimal e \<le> g"
      "\<forall>e'\<in>set conversion. decimal e' \<le> g \<longrightarrow> decimal e' \<le> decimal e" by blast
    show ?thesis
    proof (rule ex1I [of _ e])
      show "e \<in> set conversion \<and> decimal e \<le> g \<and>
            (\<forall>e'\<in>set conversion. decimal e' \<le> g \<longrightarrow> decimal e' \<le> decimal e)"
        using e by blast
    next
      fix x
      assume x: "x \<in> set conversion \<and> decimal x \<le> g \<and>
            (\<forall>e'\<in>set conversion. decimal e' \<le> g \<longrightarrow> decimal e' \<le> decimal x)"
      with e have "decimal x = decimal e" by (meson order.antisym)
      with desc_table_inj [OF d] x e(1) show "x = e" by blast
    qed
  qed
  from registered_ids [OF assms] registered_decreasing [OF assms] zero
    registered_nonneg [OF assms] uniq
  show ?thesis by blast
qed

text \<open>The theorem at scale 2, the longest table, and the grade 8.45.\<close>

theorem registered_scale_invariant_witness:
  "scale 2 = Some (the (scale 2)) \<and> (0::rat) \<le> 8.45 \<and>
   sorted_wrt (>) (map decimal (the (scale 2))) \<and>
   0 \<in> set (map decimal (the (scale 2))) \<and>
   list_all (\<lambda>e. 0 \<le> decimal e) (the (scale 2)) \<and>
   (\<exists>!e. e \<in> set (the (scale 2)) \<and> decimal e \<le> 8.45 \<and>
      (\<forall>e'\<in>set (the (scale 2)). decimal e' \<le> 8.45 \<longrightarrow> decimal e' \<le> decimal e))"
proof -
  have s: "scale 2 = Some (the (scale 2))" by (simp add: scale_def)
  have g: "(0::rat) \<le> 8.45" by simp
  note inv = registered_scale_invariant [OF s]
  from inv have "sorted_wrt (>) (map decimal (the (scale 2)))"
    and "0 \<in> set (map decimal (the (scale 2)))"
    and "list_all (\<lambda>e. 0 \<le> decimal e) (the (scale 2))"
    unfolding list_all_iff by blast+
  moreover from inv g
  have "\<exists>!e. e \<in> set (the (scale 2)) \<and> decimal e \<le> 8.45 \<and>
      (\<forall>e'\<in>set (the (scale 2)). decimal e' \<le> 8.45 \<longrightarrow> decimal e' \<le> decimal e)"
    by blast
  ultimately show ?thesis using s g by blast
qed

text \<open>
  Claim C8, as amended. The registered identifiers are 1, 2 and 3. Subscripting the
  dictionary with an identifier that is not registered raises \<open>KeyError\<close>, and so does
  \<open>get_gpa\<close> on any transcript; for a registered identifier the subscript returns that
  scale's table, whose thresholds are in strictly decreasing order. The subscript is a
  read of a class attribute: the model is a function of the identifier alone and has
  no state to change.
\<close>

theorem scale_getitem_contract:
  "dom scale = {1, 2, 3} \<and>
   (scale_id \<notin> dom scale \<longrightarrow>
      scale_getitem scale_id = Inl KeyError \<and> get_gpa scale_id transcript = Inl KeyError) \<and>
   (scale_id \<in> dom scale \<longrightarrow>
      (\<exists>conversion. scale scale_id = Some conversion \<and> scale_getitem scale_id = Inr conversion \<and>
         sorted_wrt (>) (map decimal conversion)))"
proof -
  have ids: "dom scale = {1, 2, 3}"
    by (auto simp: scale_def split: if_splits)
  have missing: "scale_getitem scale_id = Inl KeyError \<and> get_gpa scale_id transcript = Inl KeyError"
    if "scale_id \<notin> dom scale"
  proof -
    from that have "scale scale_id = None" by blast
    then show ?thesis by (simp add: scale_getitem_def get_gpa_def)
  qed
  have present: "\<exists>conversion. scale scale_id = Some conversion \<and>
      scale_getitem scale_id = Inr conversion \<and> sorted_wrt (>) (map decimal conversion)"
    if "scale_id \<in> dom scale"
  proof -
    from that obtain conversion where s: "scale scale_id = Some conversion" by blast
    with registered_decreasing [OF s] show ?thesis by (simp add: scale_getitem_def)
  qed
  from ids missing present show ?thesis by blast
qed

text \<open>The theorem at the identifiers 99 (not registered) and 1 (registered).\<close>

theorem scale_getitem_contract_witness:
  "(99::int) \<notin> dom scale \<and> (1::int) \<in> dom scale \<and>
   scale_getitem 99 = Inl KeyError \<and>
   get_gpa 99 (Columns [\<lparr>credits = 1, grade_row = 8.0\<rparr>]) = Inl KeyError \<and>
   (\<exists>conversion. scale 1 = Some conversion \<and> scale_getitem 1 = Inr conversion \<and>
      sorted_wrt (>) (map decimal conversion))"
proof -
  have n: "(99::int) \<notin> dom scale" and r: "(1::int) \<in> dom scale"
    by (simp_all add: scale_def)
  from scale_getitem_contract [of 99 "Columns [\<lparr>credits = 1, grade_row = 8.0\<rparr>]"]
    scale_getitem_contract [of 1 "Columns []"] n r
  show ?thesis by blast
qed

text \<open>
  The claim as it was stated names the failure \<open>UnknownScaleError\<close>. The module has no
  such exception: for the identifier 99 the exception is the dictionary's \<open>KeyError\<close>.
\<close>

theorem scale_getitem_99_counterexample:
  "scale_getitem 99 = Inl KeyError \<and> get_gpa 99 (Columns []) = Inl KeyError"
  by (simp add: scale_getitem_def get_gpa_def scale_def)

section \<open>The averages\<close>


text \<open>Evaluation of the rounding on numerals.\<close>

lemma floor_numeral_divide: "\<lfloor>numeral a / numeral b :: rat\<rfloor> = numeral a div numeral b"
  using floor_divide_of_int_eq [of "numeral a" "numeral b", where ?'a = rat] by simp

lemmas round64_eval = round64_def round_pos_def ilog2_def pow2_def round_half_even_def Let_def
  floor_numeral_divide

lemmas fl_eval = fl_add_def fl_mul_def fl_div_def signed_zero_def signed_inf_def py_float_def
  py_sum_def py_truediv_def

lemma py_float_0: "py_float 0 = Finite 0"
  by (simp add: py_float_def round64_def)

lemma py_sum_zeros:
  assumes "\<forall>x\<in>set xs. x = Finite 0"
  shows "py_sum xs = Finite 0"
proof -
  have "foldl fl_add (Finite 0) xs = Finite 0"
    using assms by (induction xs) (simp_all add: fl_add_def signed_zero_def)
  then show ?thesis by (simp add: py_sum_def)
qed

lemma py_sum_zero_credits:
  assumes "\<forall>r\<in>set rows. credits r = 0"
  shows "py_sum (map (\<lambda>r. py_float (credits r)) rows) = Finite 0"
  using assms by (intro py_sum_zeros) (auto simp: py_float_0)

lemma map2_map_map: "map2 f (map g xs) (map h xs) = map (\<lambda>x. f (g x) (h x)) xs"
  by (induction xs) simp_all

lemma apply_gpa_Inr:
  assumes "\<forall>g\<in>set gs. gpa g conversion = Inr (f g)"
  shows "apply_gpa gs conversion = Inr (map f gs)"
  using assms by (induction gs) simp_all

lemma apply_gpa_Inl:
  assumes "apply_gpa gs conversion = Inl err"
  shows "\<exists>g\<in>set gs. gpa g conversion = Inl err"
  using assms by (induction gs) (auto split: sum.splits)

lemma apply_gpa_registered:
  assumes s: "scale scale_id = Some conversion" and g: "\<forall>r\<in>set rows. 0 \<le> grade_row r"
  shows "\<exists>gpas. apply_gpa (map grade_row rows) conversion = Inr gpas"
proof (cases "apply_gpa (map grade_row rows) conversion")
  case (Inl err)
  from apply_gpa_Inl [OF this] obtain r where "r \<in> set rows"
    "gpa (grade_row r) conversion = Inl err" by auto
  with registered_gpa_total [OF s, of "grade_row r"] g show ?thesis by auto
next
  case (Inr gpas)
  then show ?thesis by blast
qed

text \<open>
  Claim C7, as amended. On a transcript with zero records or with credits that are all
  zero both averages fail, with built-in exceptions of Python. On the frame without
  columns that \<open>get_grade_records\<close> builds from no subject, \<open>get_iaa\<close> raises
  \<open>AttributeError\<close>, and so does \<open>get_gpa\<close> under a registered scale. On a frame that has
  its columns, with no rows or with rows whose credits are all zero, \<open>get_iaa\<close> raises
  \<open>ZeroDivisionError\<close>, and so does \<open>get_gpa\<close> when the scale is registered and the
  grades are \<open>\<ge> 0\<close>; in every other case \<open>get_gpa\<close> has failed before, with \<open>KeyError\<close>
  or \<open>ValueError\<close>.
\<close>

theorem averages_zero_weight:
  "get_iaa (DataFrame []) = Inl AttributeError \<and>
   (\<exists>err. get_gpa scale_id (DataFrame []) = Inl err) \<and>
   (scale scale_id \<noteq> None \<longrightarrow> get_gpa scale_id (DataFrame []) = Inl AttributeError) \<and>
   ((\<forall>r\<in>set rows. credits r = 0) \<longrightarrow>
      get_iaa (Columns rows) = Inl ZeroDivisionError \<and>
      (\<exists>err. get_gpa scale_id (Columns rows) = Inl err) \<and>
      (scale scale_id \<noteq> None \<and> (\<forall>r\<in>set rows. 0 \<le> grade_row r) \<longrightarrow>
         get_gpa scale_id (Columns rows) = Inl ZeroDivisionError))"
proof -
  have iaa0: "get_iaa (DataFrame []) = Inl AttributeError"
    by (simp add: get_iaa_def DataFrame_def)
  have gpa0: "\<exists>err. get_gpa scale_id (DataFrame []) = Inl err"
    by (simp add: get_gpa_def DataFrame_def scale_getitem_def split: option.splits)
  have gpa0': "get_gpa scale_id (DataFrame []) = Inl AttributeError" if "scale scale_id \<noteq> None"
    using that by (auto simp: get_gpa_def DataFrame_def scale_getitem_def)
  have zero: "get_iaa (Columns rows) = Inl ZeroDivisionError \<and>
      (\<exists>err. get_gpa scale_id (Columns rows) = Inl err) \<and>
      (scale scale_id \<noteq> None \<and> (\<forall>r\<in>set rows. 0 \<le> grade_row r) \<longrightarrow>
         get_gpa scale_id (Columns rows) = Inl ZeroDivisionError)"
    if c: "\<forall>r\<in>set rows. credits r = 0"
  proof -
    note z = py_sum_zero_credits [OF c]
    have iaa: "get_iaa (Columns rows) = Inl ZeroDivisionError"
      by (simp add: get_iaa_def py_truediv_def z)
    have fails: "\<exists>err. get_gpa scale_id (Columns rows) = Inl err"
      by (simp add: get_gpa_def scale_getitem_def py_truediv_def z
          split: option.splits sum.splits)
    have zde: "get_gpa scale_id (Columns rows) = Inl ZeroDivisionError"
      if "scale scale_id \<noteq> None" "\<forall>r\<in>set rows. 0 \<le> grade_row r"
    proof -
      from that(1) obtain conversion where s: "scale scale_id = Some conversion" by blast
      from apply_gpa_registered [OF s that(2)] obtain gpas
        where "apply_gpa (map grade_row rows) conversion = Inr gpas" ..
      then show ?thesis
        by (simp add: get_gpa_def scale_getitem_def s py_truediv_def z)
    qed
    from iaa fails zde show ?thesis by blast
  qed
  from iaa0 gpa0 gpa0' zero show ?thesis by blast
qed

text \<open>
  The theorem under scale 2, at the frame built from no subject and at a transcript of
  one subject with no credits.
\<close>

theorem averages_zero_weight_witness:
  "scale 2 \<noteq> None \<and>
   list_all (\<lambda>r. credits r = 0) [\<lparr>credits = 0, grade_row = 8.0\<rparr>] \<and>
   list_all (\<lambda>r. 0 \<le> grade_row r) [\<lparr>credits = 0, grade_row = 8.0\<rparr>] \<and>
   get_iaa (DataFrame []) = Inl AttributeError \<and>
   get_gpa 2 (DataFrame []) = Inl AttributeError \<and>
   get_iaa (Columns [\<lparr>credits = 0, grade_row = 8.0\<rparr>]) = Inl ZeroDivisionError \<and>
   get_gpa 2 (Columns [\<lparr>credits = 0, grade_row = 8.0\<rparr>]) = Inl ZeroDivisionError"
proof -
  let ?t = "[\<lparr>credits = 0, grade_row = 8.0\<rparr>]"
  have c: "\<forall>r\<in>set ?t. credits r = 0" by simp
  have s: "scale 2 \<noteq> None" by (simp add: scale_def)
  have g: "\<forall>r\<in>set ?t. 0 \<le> grade_row r" by simp
  from averages_zero_weight [of 2 ?t] c s g
  have "get_iaa (DataFrame []) = Inl AttributeError \<and>
    get_gpa 2 (DataFrame []) = Inl AttributeError \<and>
    get_iaa (Columns ?t) = Inl ZeroDivisionError \<and>
    get_gpa 2 (Columns ?t) = Inl ZeroDivisionError" by blast
  with s show ?thesis by simp
qed

text \<open>
  The claim as it was stated names the failure \<open>EmptyTranscriptError\<close>. The module has
  no such exception: on a transcript with zero records the averages raise
  \<open>AttributeError\<close> or \<open>ZeroDivisionError\<close>.
\<close>

theorem averages_empty_counterexample:
  "get_iaa (DataFrame []) = Inl AttributeError \<and> get_gpa 1 (DataFrame []) = Inl AttributeError \<and>
   get_iaa (Columns []) = Inl ZeroDivisionError \<and> get_gpa 1 (Columns []) = Inl ZeroDivisionError"
  by (simp add: get_iaa_def get_gpa_def DataFrame_def scale_getitem_def scale_def
      py_truediv_def py_sum_def)

end
